theory Spec2Isabelle
  imports Complex_Main
begin

section \<open>Relative airmass (\<^verbatim>\<open>pvlib.py\<close>, \<^verbatim>\<open>get_relative_airmass\<close>)\<close>

text \<open>
  The source is one NumPy function.  Its numbers are binary64 floats; here a float is
  either one of the three IEEE special values or a finite value, and a finite value is
  an exact real number.  The arithmetic below follows IEEE 754 and NumPy on the special
  values (NaN propagates, \<open>x / 0\<close> is an infinity, \<open>0 / 0\<close> and \<open>inf - inf\<close> are NaN,
  a negative base with a fractional exponent is NaN; NumPy warns and never raises), and
  is exact on finite values: rounding, overflow to infinity and the sign of zero are not
  modelled (a zero is \<open>+0\<close>).  The one branch whose outcome a rounding decides,
  \<^verbatim>\<open>simple\<close> at a zenith of 90, is modelled a second time with binary64 results.
\<close>

subsection \<open>Floats\<close>

datatype npfloat = NaN | PInf | NInf | Fin real

text \<open>\<^verbatim>\<open>a > b\<close>: every comparison with NaN is false.\<close>

fun np_greater :: "npfloat \<Rightarrow> npfloat \<Rightarrow> bool" where
  "np_greater NaN _ = False"
| "np_greater _ NaN = False"
| "np_greater _ PInf = False"
| "np_greater PInf _ = True"
| "np_greater NInf _ = False"
| "np_greater (Fin a) NInf = True"
| "np_greater (Fin a) (Fin b) = (a > b)"

fun np_add :: "npfloat \<Rightarrow> npfloat \<Rightarrow> npfloat" where
  "np_add NaN _ = NaN"
| "np_add _ NaN = NaN"
| "np_add PInf NInf = NaN"
| "np_add NInf PInf = NaN"
| "np_add PInf _ = PInf"
| "np_add _ PInf = PInf"
| "np_add NInf _ = NInf"
| "np_add _ NInf = NInf"
| "np_add (Fin a) (Fin b) = Fin (a + b)"

fun np_subtract :: "npfloat \<Rightarrow> npfloat \<Rightarrow> npfloat" where
  "np_subtract NaN _ = NaN"
| "np_subtract _ NaN = NaN"
| "np_subtract PInf PInf = NaN"
| "np_subtract NInf NInf = NaN"
| "np_subtract PInf _ = PInf"
| "np_subtract _ PInf = NInf"
| "np_subtract NInf _ = NInf"
| "np_subtract _ NInf = PInf"
| "np_subtract (Fin a) (Fin b) = Fin (a - b)"

fun np_multiply :: "npfloat \<Rightarrow> npfloat \<Rightarrow> npfloat" where
  "np_multiply NaN _ = NaN"
| "np_multiply _ NaN = NaN"
| "np_multiply PInf PInf = PInf"
| "np_multiply PInf NInf = NInf"
| "np_multiply NInf PInf = NInf"
| "np_multiply NInf NInf = PInf"
| "np_multiply PInf (Fin b) = (if b = 0 then NaN else if 0 < b then PInf else NInf)"
| "np_multiply NInf (Fin b) = (if b = 0 then NaN else if 0 < b then NInf else PInf)"
| "np_multiply (Fin a) PInf = (if a = 0 then NaN else if 0 < a then PInf else NInf)"
| "np_multiply (Fin a) NInf = (if a = 0 then NaN else if 0 < a then NInf else PInf)"
| "np_multiply (Fin a) (Fin b) = Fin (a * b)"

text \<open>
  \<^verbatim>\<open>a / b\<close>: a nonzero finite value over zero is an infinity with the sign of the
  numerator, \<open>0 / 0\<close> and \<open>inf / inf\<close> are NaN, a finite value over an infinity is zero.
\<close>

fun np_divide :: "npfloat \<Rightarrow> npfloat \<Rightarrow> npfloat" where
  "np_divide NaN _ = NaN"
| "np_divide _ NaN = NaN"
| "np_divide PInf PInf = NaN"
| "np_divide PInf NInf = NaN"
| "np_divide NInf PInf = NaN"
| "np_divide NInf NInf = NaN"
| "np_divide PInf (Fin b) = (if 0 \<le> b then PInf else NInf)"
| "np_divide NInf (Fin b) = (if 0 \<le> b then NInf else PInf)"
| "np_divide (Fin a) PInf = Fin 0"
| "np_divide (Fin a) NInf = Fin 0"
| "np_divide (Fin a) (Fin b) =
     (if b \<noteq> 0 then Fin (a / b)
      else if a = 0 then NaN
      else if 0 < a then PInf else NInf)"

text \<open>
  \<^verbatim>\<open>x ** y\<close> with \<open>y\<close> a literal of the source (every exponent in the function is one).
  As C's \<open>pow\<close>: anything to the power zero is one, also NaN; a positive base uses the
  real power; zero to a negative power is \<open>+inf\<close>; a negative base is defined for an
  integral exponent only and is NaN otherwise.
\<close>

fun np_power :: "npfloat \<Rightarrow> real \<Rightarrow> npfloat" where
  "np_power NaN y = (if y = 0 then Fin 1 else NaN)"
| "np_power PInf y = (if y = 0 then Fin 1 else if 0 < y then PInf else Fin 0)"
| "np_power NInf y =
     (if y = 0 then Fin 1
      else if y < 0 then Fin 0
      else if of_int \<lfloor>y\<rfloor> = y \<and> odd \<lfloor>y\<rfloor> then NInf else PInf)"
| "np_power (Fin a) y =
     (if y = 0 then Fin 1
      else if 0 < a then Fin (a powr y)
      else if a = 0 then (if 0 < y then Fin 0 else PInf)
      else if of_int \<lfloor>y\<rfloor> = y
           then Fin ((if even \<lfloor>y\<rfloor> then 1 else - 1) * (\<bar>a\<bar> powr y))
      else NaN)"

text \<open>\<^verbatim>\<open>np.radians\<close>, \<^verbatim>\<open>np.cos\<close>, \<^verbatim>\<open>np.sin\<close>: the cosine and sine of an infinity are NaN.\<close>

fun np_radians :: "npfloat \<Rightarrow> npfloat" where
  "np_radians (Fin a) = Fin (a * pi / 180)"
| "np_radians x = x"

fun np_cos :: "npfloat \<Rightarrow> npfloat" where
  "np_cos (Fin a) = Fin (cos a)"
| "np_cos _ = NaN"

fun np_sin :: "npfloat \<Rightarrow> npfloat" where
  "np_sin (Fin a) = Fin (sin a)"
| "np_sin _ = NaN"

subsection \<open>Strings\<close>

text \<open>\<^verbatim>\<open>str.lower\<close> on ASCII text: the 26 capital letters change, every other character stays.\<close>

definition lower_char :: "char \<Rightarrow> char" where
  "lower_char c =
     (case map_of (zip ''ABCDEFGHIJKLMNOPQRSTUVWXYZ'' ''abcdefghijklmnopqrstuvwxyz'') c of
        Some d \<Rightarrow> d
      | None \<Rightarrow> c)"

definition lower :: "string \<Rightarrow> string" where
  "lower s = map lower_char s"

subsection \<open>Inputs, arrays and errors\<close>

text \<open>
  \<^verbatim>\<open>zenith\<close> is a scalar, a NumPy array or a pandas Series (values with their index
  labels, in order).  \<^verbatim>\<open>np.where\<close> returns a bare array: zero-dimensional for a scalar,
  the values without the labels for a Series.  A ufunc maps over the elements; on a
  zero-dimensional array it gives a scalar.
\<close>

datatype 'l numeric = Scalar npfloat | NDArray "npfloat list" | Series "('l \<times> npfloat) list"

datatype ndarray = Arr0 npfloat | Arr1 "npfloat list"

datatype error = ValueError "string list"

fun ufunc :: "(npfloat \<Rightarrow> npfloat) \<Rightarrow> ndarray \<Rightarrow> ndarray" where
  "ufunc f (Arr0 x) = Arr0 (f x)"
| "ufunc f (Arr1 xs) = Arr1 (map f xs)"

text \<open>\<^verbatim>\<open>np.where(zenith > 90, np.nan, zenith)\<close>\<close>

definition where_gt90 :: "npfloat \<Rightarrow> npfloat" where
  "where_gt90 x = (if np_greater x (Fin 90) then NaN else x)"

fun np_where_gt90 :: "'l numeric \<Rightarrow> ndarray" where
  "np_where_gt90 (Scalar x) = Arr0 (where_gt90 x)"
| "np_where_gt90 (NDArray xs) = Arr1 (map where_gt90 xs)"
| "np_where_gt90 (Series s) = Arr1 (map (where_gt90 \<circ> snd) s)"

text \<open>
  \<^verbatim>\<open>pd.Series(am, index=zenith.index)\<close>: the values take the labels of the index in
  order; a scalar is repeated for every label; pandas raises when the lengths differ.
\<close>

fun pd_Series :: "ndarray \<Rightarrow> 'l list \<Rightarrow> error + 'l numeric" where
  "pd_Series (Arr0 a) index = Inr (Series (map (\<lambda>l. (l, a)) index))"
| "pd_Series (Arr1 am) index =
     (if length am = length index then Inr (Series (zip index am))
      else Inl (ValueError [''Length of values does not match length of index'']))"

subsection \<open>The eight formulas\<close>

text \<open>
  Each is the right-hand side of one branch of the source, for one element:
  \<open>z\<close> is the masked zenith in degrees and \<open>zenith_rad\<close> its value in radians.
\<close>

definition am_kastenyoung1989 :: "npfloat \<Rightarrow> npfloat \<Rightarrow> npfloat" where
  "am_kastenyoung1989 z zenith_rad =
     np_divide (Fin 1.0)
       (np_add (np_cos zenith_rad)
          (np_multiply (Fin 0.50572)
             (np_power (np_add (Fin 6.07995) (np_subtract (Fin 90) z)) (- 1.6364))))"

definition am_kasten1966 :: "npfloat \<Rightarrow> npfloat \<Rightarrow> npfloat" where
  "am_kasten1966 z zenith_rad =
     np_divide (Fin 1.0)
       (np_add (np_cos zenith_rad)
          (np_multiply (Fin 0.15) (np_power (np_subtract (Fin 93.885) z) (- 1.253))))"

definition am_simple :: "npfloat \<Rightarrow> npfloat \<Rightarrow> npfloat" where
  "am_simple z zenith_rad = np_divide (Fin 1.0) (np_cos zenith_rad)"

definition am_pickering2002 :: "npfloat \<Rightarrow> npfloat \<Rightarrow> npfloat" where
  "am_pickering2002 z zenith_rad =
     np_divide (Fin 1.0)
       (np_sin (np_radians
          (np_add (np_subtract (Fin 90) z)
             (np_divide (Fin 244.0)
                (np_add (Fin 165)
                   (np_multiply (Fin 47.0) (np_power (np_subtract (Fin 90) z) 1.1)))))))"

definition am_youngirvine1967 :: "npfloat \<Rightarrow> npfloat \<Rightarrow> npfloat" where
  "am_youngirvine1967 z zenith_rad =
     (let sec_zen = np_divide (Fin 1.0) (np_cos zenith_rad)
      in np_multiply sec_zen
           (np_subtract (Fin 1)
              (np_multiply (Fin 0.0012)
                 (np_subtract (np_multiply sec_zen sec_zen) (Fin 1)))))"

definition am_young1994 :: "npfloat \<Rightarrow> npfloat \<Rightarrow> npfloat" where
  "am_young1994 z zenith_rad =
     np_divide
       (np_add
          (np_add (np_multiply (Fin 1.002432) (np_power (np_cos zenith_rad) 2))
                  (np_multiply (Fin 0.148386) (np_cos zenith_rad)))
          (Fin 0.0096467))
       (np_add
          (np_add
             (np_add (np_power (np_cos zenith_rad) 3)
                     (np_multiply (Fin 0.149864) (np_power (np_cos zenith_rad) 2)))
             (np_multiply (Fin 0.0102963) (np_cos zenith_rad)))
          (Fin 0.000303978))"

definition am_gueymard1993 :: "npfloat \<Rightarrow> npfloat \<Rightarrow> npfloat" where
  "am_gueymard1993 z zenith_rad =
     np_divide (Fin 1.0)
       (np_add (np_cos zenith_rad)
          (np_multiply (np_multiply (Fin 0.00176759) z)
             (np_power (np_subtract (Fin 94.37515) z) (- 1.21563))))"

definition am_gueymard2003 :: "npfloat \<Rightarrow> npfloat \<Rightarrow> npfloat" where
  "am_gueymard2003 z zenith_rad =
     np_divide (Fin 1.0)
       (np_add (np_cos zenith_rad)
          (np_divide (np_multiply (Fin 0.48353) (np_power z 0.095846))
             (np_power (np_subtract (Fin 96.741) z) 1.754)))"

subsection \<open>\<^verbatim>\<open>get_relative_airmass\<close>\<close>

text \<open>
  The chain of comparisons of the source, in its order, on the lowercased model: each
  branch selects its formula, the last one is the \<^verbatim>\<open>raise\<close>.  The exception is built
  from two arguments, the unformatted text and the lowercased model.
\<close>

definition select_model :: "string \<Rightarrow> error + (npfloat \<Rightarrow> npfloat \<Rightarrow> npfloat)" where
  "select_model model =
     (if ''kastenyoung1989'' = model then Inr am_kastenyoung1989
      else if ''kasten1966'' = model then Inr am_kasten1966
      else if ''simple'' = model then Inr am_simple
      else if ''pickering2002'' = model then Inr am_pickering2002
      else if ''youngirvine1967'' = model then Inr am_youngirvine1967
      else if ''young1994'' = model then Inr am_young1994
      else if ''gueymard1993'' = model then Inr am_gueymard1993
      else if ''gueymard2003'' = model then Inr am_gueymard2003
      else Inl (ValueError [''%s is not a valid model for relativeairmass'', model]))"

text \<open>
  The body in the order of the source: mask, radians, lowercase the model, the chain,
  then the Series rebuilt on the index of the input; any other input returns the array,
  a scalar for a scalar.
\<close>

definition get_relative_airmass :: "'l numeric \<Rightarrow> string \<Rightarrow> error + 'l numeric" where
  "get_relative_airmass zenith model =
     (let z = np_where_gt90 zenith;
          model = lower model
      in case select_model model of
           Inl e \<Rightarrow> Inl e
         | Inr formula \<Rightarrow>
             (let am = ufunc (\<lambda>z. formula z (np_radians z)) z
              in case zenith of
                   Series s \<Rightarrow> pd_Series am (map fst s)
                 | _ \<Rightarrow> Inr (case am of Arr0 a \<Rightarrow> Scalar a | Arr1 xs \<Rightarrow> NDArray xs)))"

text \<open>The eight names the chain compares with.\<close>

definition model_names :: "string list" where
  "model_names =
     [''kastenyoung1989'', ''kasten1966'', ''simple'', ''pickering2002'',
      ''youngirvine1967'', ''young1994'', ''gueymard1993'', ''gueymard2003'']"

subsection \<open>Reading results, and the specification's table\<close>

text \<open>The elements of an input or a result, in order (\<^verbatim>\<open>.values\<close>; a scalar has one).\<close>

fun values_of :: "'l numeric \<Rightarrow> npfloat list" where
  "values_of (Scalar x) = [x]"
| "values_of (NDArray xs) = xs"
| "values_of (Series s) = map snd s"

text \<open>What one element goes through: the mask, the radians, the selected formula.\<close>

definition element :: "(npfloat \<Rightarrow> npfloat \<Rightarrow> npfloat) \<Rightarrow> npfloat \<Rightarrow> npfloat" where
  "element formula x = formula (where_gt90 x) (np_radians (where_gt90 x))"

text \<open>
  The denominator of the \<^verbatim>\<open>kastenyoung1989\<close> row of the specification's formula table,
  over the reals, for a zenith of \<open>z\<close> degrees.
\<close>

definition kastenyoung1989_denominator :: "real \<Rightarrow> real" where
  "kastenyoung1989_denominator z =
     cos (z * pi / 180) + 0.50572 * (6.07995 + (90 - z)) powr (- 1.6364)"

text \<open>
  The formula table of the specification (section 4.1), row by row in its order and in
  its words, for one element \<open>z\<close> in degrees: \<open>zenith_rad\<close> is \<open>z\<close> in radians, a
  square or a cube is a power, and a name outside the table has no formula.
\<close>

definition spec_formula :: "string \<Rightarrow> npfloat \<Rightarrow> npfloat option" where
  "spec_formula model z =
     (let zenith_rad = np_radians z;
          c = np_cos zenith_rad
      in if model = ''simple'' then Some (np_divide (Fin 1) c)
         else if model = ''kasten1966'' then
           Some (np_divide (Fin 1)
                   (np_add c (np_multiply (Fin 0.15)
                                (np_power (np_subtract (Fin 93.885) z) (- 1.253)))))
         else if model = ''youngirvine1967'' then
           (let sec = np_divide (Fin 1) c
            in Some (np_multiply sec
                       (np_subtract (Fin 1)
                          (np_multiply (Fin 0.0012) (np_subtract (np_power sec 2) (Fin 1))))))
         else if model = ''kastenyoung1989'' then
           Some (np_divide (Fin 1)
                   (np_add c (np_multiply (Fin 0.50572)
                                (np_power (np_add (Fin 6.07995) (np_subtract (Fin 90) z))
                                   (- 1.6364)))))
         else if model = ''gueymard1993'' then
           Some (np_divide (Fin 1)
                   (np_add c (np_multiply (np_multiply (Fin 0.00176759) z)
                                (np_power (np_subtract (Fin 94.37515) z) (- 1.21563)))))
         else if model = ''young1994'' then
           Some (np_divide
                   (np_add (np_add (np_multiply (Fin 1.002432) (np_power c 2))
                                   (np_multiply (Fin 0.148386) c))
                           (Fin 0.0096467))
                   (np_add (np_add (np_add (np_power c 3)
                                           (np_multiply (Fin 0.149864) (np_power c 2)))
                                   (np_multiply (Fin 0.0102963) c))
                           (Fin 0.000303978)))
         else if model = ''pickering2002'' then
           Some (np_divide (Fin 1)
                   (np_sin (np_radians
                      (np_add (np_subtract (Fin 90) z)
                         (np_divide (Fin 244)
                            (np_add (Fin 165)
                               (np_multiply (Fin 47)
                                  (np_power (np_subtract (Fin 90) z) 1.1))))))))
         else if model = ''gueymard2003'' then
           Some (np_divide (Fin 1)
                   (np_add c (np_divide (np_multiply (Fin 0.48353) (np_power z 0.095846))
                                (np_power (np_subtract (Fin 96.741) z) 1.754))))
         else None)"

subsection \<open>The branch \<^verbatim>\<open>simple\<close> in binary64\<close>

text \<open>
  Where rounding decides.  Everything above computes with exact reals, which is faithful
  wherever an outcome does not hang on a rounding.  For \<^verbatim>\<open>simple\<close> at a zenith of 90 it
  does: over the reals the cosine of \<open>90 * pi / 180\<close> is zero and the quotient is an
  infinity, while NumPy's \<^verbatim>\<open>np.radians(90)\<close> is a binary64 number, and no binary64 number is
  \<open>pi / 2\<close>.  The rest of this part models that one branch with binary64 results.

  The finite binary64 numbers: \<open>m * 2 ^ e\<close> with \<open>\<bar>m\<bar> < 2 ^ 53\<close> and
  \<open>- 1074 \<le> e \<le> 971\<close>.
\<close>

definition binary64 :: "real set" where
  "binary64 =
     {x. \<exists>m e :: int. x = of_int m * 2 powi e \<and> \<bar>m\<bar> < 2 ^ 53 \<and> - 1074 \<le> e \<and> e \<le> 971}"

text \<open>
  \<^verbatim>\<open>np.radians\<close> and \<^verbatim>\<open>np.cos\<close> are NumPy's own code, so they are described by their
  accuracy only, and loosely: the result is some binary64 number, within a relative
  error of \<open>2 ^ - 50\<close> of the exact angle for the radians, within half of the exact
  cosine for the cosine.  NumPy's results are far more accurate, so they are among those
  the relations allow.
\<close>

definition radians64 :: "real \<Rightarrow> real \<Rightarrow> bool" where
  "radians64 x y \<longleftrightarrow> y \<in> binary64 \<and> \<bar>y - x * pi / 180\<bar> \<le> \<bar>x * pi / 180\<bar> / 2 ^ 50"

definition cos64 :: "real \<Rightarrow> real \<Rightarrow> bool" where
  "cos64 x y \<longleftrightarrow> y \<in> binary64 \<and> \<bar>y - cos x\<bar> \<le> \<bar>cos x\<bar> / 2"

text \<open>
  \<^verbatim>\<open>a / b\<close> in IEEE 754 binary64: a division by zero gives NaN or an infinity, a quotient
  at or beyond \<open>2 ^ 1024 - 2 ^ 970\<close> overflows to an infinity, and any other quotient is
  rounded to a binary64 number (relative error \<open>2 ^ - 53\<close>, or half the smallest
  subnormal when the quotient underflows).
\<close>

definition divide64 :: "real \<Rightarrow> real \<Rightarrow> npfloat \<Rightarrow> bool" where
  "divide64 a b q \<longleftrightarrow>
     (if b = 0 then q = (if a = 0 then NaN else if 0 < a then PInf else NInf)
      else if 2 ^ 1024 - 2 ^ 970 \<le> \<bar>a / b\<bar> then q = (if 0 < a / b then PInf else NInf)
      else \<exists>r. q = Fin r \<and> r \<in> binary64 \<and>
                \<bar>r - a / b\<bar> \<le> max (\<bar>a / b\<bar> / 2 ^ 53) (1 / 2 ^ 1075))"

text \<open>
  The branch \<^verbatim>\<open>simple\<close> for one finite zenith, line by line: the mask (a masked element is
  NaN through every later step), \<^verbatim>\<open>zenith_rad = np.radians(z)\<close>, and
  \<^verbatim>\<open>am = 1.0 / np.cos(zenith_rad)\<close>.  \<open>simple64 zenith am\<close> says that \<open>am\<close> is a value the
  code can return.
\<close>

definition simple64 :: "real \<Rightarrow> npfloat \<Rightarrow> bool" where
  "simple64 zenith am \<longleftrightarrow>
     (if zenith > 90 then am = NaN
      else \<exists>zenith_rad c. radians64 zenith zenith_rad \<and> cos64 zenith_rad c \<and> divide64 1.0 c am)"

section \<open>Auxiliary facts\<close>

lemma select_model_simps:
  "select_model ''kastenyoung1989'' = Inr am_kastenyoung1989"
  "select_model ''kasten1966'' = Inr am_kasten1966"
  "select_model ''simple'' = Inr am_simple"
  "select_model ''pickering2002'' = Inr am_pickering2002"
  "select_model ''youngirvine1967'' = Inr am_youngirvine1967"
  "select_model ''young1994'' = Inr am_young1994"
  "select_model ''gueymard1993'' = Inr am_gueymard1993"
  "select_model ''gueymard2003'' = Inr am_gueymard2003"
  by (simp_all add: select_model_def)

lemma select_model_invalid:
  "m \<notin> set model_names \<Longrightarrow>
   select_model m = Inl (ValueError [''%s is not a valid model for relativeairmass'', m])"
  unfolding select_model_def model_names_def
  by (simp only: list.set insert_iff empty_iff de_Morgan_disj) (simp add: eq_commute)

lemma model_names_cases:
  assumes "m \<in> set model_names"
  obtains "m = ''kastenyoung1989''" | "m = ''kasten1966''" | "m = ''simple''"
    | "m = ''pickering2002''" | "m = ''youngirvine1967''" | "m = ''young1994''"
    | "m = ''gueymard1993''" | "m = ''gueymard2003''"
proof -
  from assms have "m = ''kastenyoung1989'' \<or> m = ''kasten1966'' \<or> m = ''simple''
    \<or> m = ''pickering2002'' \<or> m = ''youngirvine1967'' \<or> m = ''young1994''
    \<or> m = ''gueymard1993'' \<or> m = ''gueymard2003''"
    unfolding model_names_def by (simp only: list.set insert_iff empty_iff simp_thms)
  then show thesis
    using that by (elim disjE)
qed


lemma select_model_valid:
  assumes "m \<in> set model_names"
  shows "\<exists>f. select_model m = Inr f"
  using assms
proof (cases rule: model_names_cases)
qed (simp_all only: select_model_simps sum.inject simp_thms)

lemma lower_model_names:
  "lower ''kastenyoung1989'' = ''kastenyoung1989''"
  "lower ''kasten1966'' = ''kasten1966''"
  "lower ''simple'' = ''simple''"
  "lower ''pickering2002'' = ''pickering2002''"
  "lower ''youngirvine1967'' = ''youngirvine1967''"
  "lower ''young1994'' = ''young1994''"
  "lower ''gueymard1993'' = ''gueymard1993''"
  "lower ''gueymard2003'' = ''gueymard2003''"
  by (simp_all add: lower_def lower_char_def)

lemma gra_invalid:
  assumes "lower model \<notin> set model_names"
  shows "get_relative_airmass zenith model =
         Inl (ValueError [''%s is not a valid model for relativeairmass'', lower model])"
  by (simp add: get_relative_airmass_def select_model_invalid [OF assms])

lemma gra_Scalar:
  assumes "select_model (lower model) = Inr f"
  shows "get_relative_airmass (Scalar x) model = Inr (Scalar (element f x))"
  by (simp add: get_relative_airmass_def assms element_def)

lemma gra_NDArray:
  assumes "select_model (lower model) = Inr f"
  shows "get_relative_airmass (NDArray xs) model = Inr (NDArray (map (element f) xs))"
  by (simp add: get_relative_airmass_def assms element_def)

lemma zip_index_values:
  "zip (map fst s) (map (\<lambda>p. g (h (snd p))) s) = map (\<lambda>(l, x). (l, g (h x))) s"
  by (induction s) auto

lemma gra_Series:
  assumes "select_model (lower model) = Inr f"
  shows "get_relative_airmass (Series s) model =
         Inr (Series (map (\<lambda>(l, x). (l, element f x)) s))"
proof -
  have "zip (map fst s) (map (\<lambda>p. (\<lambda>z. f z (np_radians z)) (where_gt90 (snd p))) s)
        = map (\<lambda>(l, x). (l, (\<lambda>z. f z (np_radians z)) (where_gt90 x))) s"
    by (rule zip_index_values)
  then show ?thesis
    by (simp add: get_relative_airmass_def assms element_def comp_def)
qed

lemma gra_values:
  assumes "select_model (lower model) = Inr f"
  shows "\<exists>am. get_relative_airmass zenith model = Inr am \<and>
              values_of am = map (element f) (values_of zenith)"
proof (cases zenith)
  case (Scalar x)
  then show ?thesis by (simp add: gra_Scalar [OF assms])
next
  case (NDArray xs)
  then show ?thesis by (simp add: gra_NDArray [OF assms])
next
  case (Series s)
  then show ?thesis by (simp add: gra_Series [OF assms] comp_def case_prod_unfold)
qed

lemma select_model_Inr_names:
  assumes "select_model m = Inr f"
  shows "m \<in> set model_names"
proof (rule ccontr)
  assume "m \<notin> set model_names"
  from select_model_invalid [OF this] assms show False by simp
qed

lemma formulas_NaN:
  "am_kastenyoung1989 NaN NaN = NaN"
  "am_kasten1966 NaN NaN = NaN"
  "am_simple NaN NaN = NaN"
  "am_pickering2002 NaN NaN = NaN"
  "am_youngirvine1967 NaN NaN = NaN"
  "am_young1994 NaN NaN = NaN"
  "am_gueymard1993 NaN NaN = NaN"
  "am_gueymard2003 NaN NaN = NaN"
  by (simp_all add: am_kastenyoung1989_def am_kasten1966_def am_simple_def
      am_pickering2002_def am_youngirvine1967_def am_young1994_def am_gueymard1993_def
      am_gueymard2003_def)

lemma select_model_NaN:
  assumes "select_model m = Inr f"
  shows "f NaN NaN = NaN"
  using select_model_Inr_names [OF assms] assms
proof (cases rule: model_names_cases)
qed (simp_all only: select_model_simps sum.inject, auto simp only: formulas_NaN)

lemma element_NaN:
  assumes "select_model m = Inr f" and "where_gt90 x = NaN"
  shows "element f x = NaN"
  by (simp add: element_def assms(2) select_model_NaN [OF assms(1)])

lemma where_gt90_greater: "np_greater x (Fin 90) \<Longrightarrow> where_gt90 x = NaN"
  by (simp add: where_gt90_def)

lemma where_gt90_90: "where_gt90 (Fin 90) = Fin 90"
  by (simp add: where_gt90_def)

lemma radians_90: "np_radians (Fin 90) = Fin (pi / 2)"
  by simp

lemma formulas_90:
  "am_kastenyoung1989 (Fin 90) (Fin (pi / 2)) \<noteq> NaN"
  "am_kasten1966 (Fin 90) (Fin (pi / 2)) \<noteq> NaN"
  "am_simple (Fin 90) (Fin (pi / 2)) \<noteq> NaN"
  "am_pickering2002 (Fin 90) (Fin (pi / 2)) \<noteq> NaN"
  "am_youngirvine1967 (Fin 90) (Fin (pi / 2)) \<noteq> NaN"
  "am_young1994 (Fin 90) (Fin (pi / 2)) \<noteq> NaN"
  "am_gueymard1993 (Fin 90) (Fin (pi / 2)) \<noteq> NaN"
  "am_gueymard2003 (Fin 90) (Fin (pi / 2)) \<noteq> NaN"
  by (simp_all add: am_kastenyoung1989_def am_kasten1966_def am_simple_def
      am_pickering2002_def am_youngirvine1967_def am_young1994_def am_gueymard1993_def
      am_gueymard2003_def)

lemma np_power_2: "np_power x 2 = np_multiply x x"
proof (cases x)
  case (Fin a)
  then show ?thesis
    by (cases "0 < a"; cases "a = 0") (simp_all add: power2_eq_square)
qed simp_all

lemma where_gt90_keep: "\<not> np_greater z (Fin 90) \<Longrightarrow> where_gt90 z = z"
  by (simp add: where_gt90_def)

lemma spec_formula_simps:
  "spec_formula ''kastenyoung1989'' z = Some (am_kastenyoung1989 z (np_radians z))"
  "spec_formula ''kasten1966'' z = Some (am_kasten1966 z (np_radians z))"
  "spec_formula ''simple'' z = Some (am_simple z (np_radians z))"
  "spec_formula ''pickering2002'' z = Some (am_pickering2002 z (np_radians z))"
  "spec_formula ''youngirvine1967'' z = Some (am_youngirvine1967 z (np_radians z))"
  "spec_formula ''young1994'' z = Some (am_young1994 z (np_radians z))"
  "spec_formula ''gueymard1993'' z = Some (am_gueymard1993 z (np_radians z))"
  "spec_formula ''gueymard2003'' z = Some (am_gueymard2003 z (np_radians z))"
  by (simp_all add: spec_formula_def Let_def np_power_2 am_kastenyoung1989_def
      am_kasten1966_def am_simple_def am_pickering2002_def am_youngirvine1967_def
      am_young1994_def am_gueymard1993_def am_gueymard2003_def)

lemma kastenyoung1989_le_90:
  assumes "r \<le> 90"
  shows "am_kastenyoung1989 (Fin r) (np_radians (Fin r)) =
         np_divide (Fin 1) (Fin (kastenyoung1989_denominator r))"
  using assms by (simp add: am_kastenyoung1989_def kastenyoung1989_denominator_def)

lemma cos_deg_nonneg:
  assumes "0 \<le> z" and "z \<le> 90"
  shows "0 \<le> cos (z * pi / 180)"
proof (rule cos_ge_zero)
  have "0 \<le> z * pi / 180" using assms(1) by simp
  then show "- (pi / 2) \<le> z * pi / 180"
    using pi_ge_zero by linarith
  have "z * pi \<le> 90 * pi"
    using assms(2) by (intro mult_right_mono) simp_all
  then show "z * pi / 180 \<le> pi / 2" by simp
qed

lemma kastenyoung1989_denominator_pos:
  assumes "0 \<le> z" and "z \<le> 90"
  shows "0 < kastenyoung1989_denominator z"
proof -
  have "0 < 0.50572 * (6.07995 + (90 - z)) powr (- 1.6364)"
    using assms(2) by simp
  with cos_deg_nonneg [OF assms] show ?thesis
    unfolding kastenyoung1989_denominator_def by linarith
qed

lemma young1994_numerator_pos:
  fixes c :: real
  assumes "- 1 \<le> c"
  shows "0 < 1.002432 * (c * c) + 0.148386 * c + 0.0096467"
proof -
  define x where "x = c * c"
  have "0 \<le> (c + 0.074)\<^sup>2" by simp
  then have 1: "0 \<le> x + 0.148 * c + 0.005476"
    by (simp add: power2_eq_square algebra_simps x_def)
  have 2: "0 \<le> x" by (simp add: x_def)
  have "0 < 1.002432 * x + 0.148386 * c + 0.0096467"
    using 1 2 assms by simp
  then show ?thesis by (simp add: x_def)
qed

lemma np_power_Fin_2: "np_power (Fin c) 2 = Fin (c * c)"
  by (simp add: np_power_2)

lemma np_power_Fin_3: "\<exists>p. np_power (Fin c) 3 = Fin p"
  by simp

lemma gueymard2003_negative:
  assumes "np_greater (Fin 0) z"
  shows "am_gueymard2003 z (np_radians z) = NaN"
proof (cases z)
  case (Fin r)
  with assms have "r < 0" by simp
  then show ?thesis
    by (simp add: Fin am_gueymard2003_def)
qed (use assms in \<open>simp_all add: am_gueymard2003_def\<close>)

lemma others_negative:
  assumes "r < 0"
  shows "am_kastenyoung1989 (Fin r) (np_radians (Fin r)) \<noteq> NaN"
    and "am_kasten1966 (Fin r) (np_radians (Fin r)) \<noteq> NaN"
    and "am_simple (Fin r) (np_radians (Fin r)) \<noteq> NaN"
    and "am_gueymard1993 (Fin r) (np_radians (Fin r)) \<noteq> NaN"
  using assms
  by (simp_all add: am_kastenyoung1989_def am_kasten1966_def am_simple_def am_gueymard1993_def)

lemma pickering2002_negative:
  assumes "r < 0"
  shows "am_pickering2002 (Fin r) (np_radians (Fin r)) \<noteq> NaN"
proof -
  have "0 < (90 - r) powr 1.1" using assms by simp
  then have "165 + 47 * (90 - r) powr 1.1 \<noteq> 0" by linarith
  then show ?thesis
    using assms by (simp add: am_pickering2002_def)
qed

lemma youngirvine1967_negative:
  "am_youngirvine1967 (Fin r) (np_radians (Fin r)) \<noteq> NaN"
  by (cases "cos (r * pi / 180) = 0") (simp_all add: am_youngirvine1967_def Let_def)

lemma young1994_negative:
  "am_young1994 (Fin r) (np_radians (Fin r)) \<noteq> NaN"
proof -
  define c where "c = cos (r * pi / 180)"
  have "- 1 \<le> c" by (simp add: c_def)
  from young1994_numerator_pos [OF this]
  have n: "1.002432 * (c * c) + 0.148386 * c + 0.0096467 \<noteq> 0" by simp
  obtain p where p: "np_power (Fin c) 3 = Fin p"
    using np_power_Fin_3 by blast
  show ?thesis
    using n
    by (simp add: am_young1994_def np_power_Fin_2 p c_def [symmetric] del: np_power.simps)
qed

lemma pi_ge_3: "3 \<le> pi"
proof -
  have "sin (pi / 6) \<le> pi / 6"
    by (rule sin_x_le_x) simp
  then show ?thesis by (simp add: sin_30)
qed

lemma cos_ge_parabola: "1 - x\<^sup>2 / 2 \<le> cos (x::real)"
proof -
  have "cos x = 1 - 2 * (sin (x / 2))\<^sup>2"
    using cos_double_sin [of "x / 2"] by simp
  moreover have "(sin (x / 2))\<^sup>2 \<le> (x / 2)\<^sup>2"
    using abs_sin_x_le_abs_x [of "x / 2"] by (metis abs_le_square_iff abs_abs)
  ultimately show ?thesis
    by (simp add: power2_eq_square) 
qed


lemma powr_rat_ge:
  fixes x N :: real
  assumes "0 < N" and "0 < x" and "0 < q" and "N ^ q \<le> x ^ p"
  shows "N \<le> x powr (real p / real q)"
proof -
  have "N = (N ^ q) powr (1 / real q)"
    using assms(1,3) by (simp add: powr_realpow [symmetric] powr_powr)
  also have "\<dots> \<le> (x ^ p) powr (1 / real q)"
    using assms by (intro powr_mono2) simp_all
  also have "\<dots> = x powr (real p / real q)"
    using assms(2) by (simp add: powr_realpow [symmetric] powr_powr)
  finally show ?thesis .
qed

lemma powr_rat_le:
  fixes x N :: real
  assumes "0 < N" and "0 < x" and "0 < q" and "x ^ p \<le> N ^ q"
  shows "x powr (real p / real q) \<le> N"
proof -
  have "x powr (real p / real q) = (x ^ p) powr (1 / real q)"
    using assms(2) by (simp add: powr_realpow [symmetric] powr_powr)
  also have "\<dots> \<le> (N ^ q) powr (1 / real q)"
    using assms by (intro powr_mono2) simp_all
  also have "\<dots> = N"
    using assms(1,3) by (simp add: powr_realpow [symmetric] powr_powr)
  finally show ?thesis .
qed

lemma base0_powr_lower: "1752 \<le> (96.07995::real) powr 1.6364"
proof -
  have "(1752::real) \<le> 96 powr (real 18 / real 11)"
    by (rule powr_rat_ge) simp_all
  also have "\<dots> \<le> 96.07995 powr (real 18 / real 11)"
    by (intro powr_mono2) simp_all
  also have "\<dots> \<le> 96.07995 powr 1.6364"
    by (intro powr_mono) simp_all
  finally show ?thesis .
qed

lemma base0_powr_upper: "(96.07995::real) powr 1.6364 \<le> 1785"
proof -
  have "(96.07995::real) powr 1.6364 \<le> 96.07995 powr (real 41 / real 25)"
    by (intro powr_mono) simp_all
  also have "\<dots> \<le> (2402 / 25) powr (real 41 / real 25)"
    by (intro powr_mono2) simp_all
  also have "\<dots> \<le> 1785"
    by (rule powr_rat_le) (simp_all add: power_divide divide_le_eq)
  finally show ?thesis .
qed

lemma gra_kastenyoung1989_valid:
  assumes "0 \<le> z" and "z \<le> 90"
  shows "get_relative_airmass (Scalar (Fin z)) ''kastenyoung1989'' =
         Inr (Scalar (Fin (1 / kastenyoung1989_denominator z)))"
proof -
  have pos: "0 < kastenyoung1989_denominator z"
    using assms by (rule kastenyoung1989_denominator_pos)
  have "where_gt90 (Fin z) = Fin z"
    using assms(2) by (simp add: where_gt90_def)
  then show ?thesis
    using pos kastenyoung1989_le_90 [OF assms(2)]
    by (simp add: gra_Scalar [where f = am_kastenyoung1989] lower_model_names
        select_model_simps element_def)
qed

lemma denominator_0:
  "kastenyoung1989_denominator 0 = 1 + 0.50572 * (1 / (96.07995 powr 1.6364))"
proof -
  have "(6.07995 + (90 - 0) :: real) = 96.07995" by simp
  then have "kastenyoung1989_denominator 0 = 1 + 0.50572 * (96.07995 powr (- 1.6364))"
    unfolding kastenyoung1989_denominator_def by simp
  then show ?thesis
    by (simp only: powr_minus_divide)
qed

lemma airmass_0_bounds:
  "28 / 100000 \<le> 1 - 1 / kastenyoung1989_denominator 0"
  "1 - 1 / kastenyoung1989_denominator 0 \<le> 29 / 100000"
proof -
  define P :: real where "P = 96.07995 powr 1.6364"
  have lo: "1752 \<le> P" and hi: "P \<le> 1785"
    unfolding P_def by (rule base0_powr_lower, rule base0_powr_upper)
  have d: "kastenyoung1989_denominator 0 = 1 + 0.50572 * (1 / P)"
    unfolding P_def by (rule denominator_0)
  have e: "1 - 1 / kastenyoung1989_denominator 0 = 0.50572 / (P + 0.50572)"
    unfolding d using lo by (simp add: field_simps)
  show "28 / 100000 \<le> 1 - 1 / kastenyoung1989_denominator 0"
    unfolding e using lo hi by (simp add: field_simps)
  show "1 - 1 / kastenyoung1989_denominator 0 \<le> 29 / 100000"
    unfolding e using lo hi by (simp add: field_simps)
qed








lemma arctan_partial_sums:
  fixes x :: real
  assumes "0 < x" and "x \<le> 1"
  shows "(\<Sum>i<2 * n. (- 1) ^ i * (1 / real (i * 2 + 1) * x ^ (i * 2 + 1))) \<le> arctan x"
    and "arctan x \<le> (\<Sum>i<2 * n + 1. (- 1) ^ i * (1 / real (i * 2 + 1) * x ^ (i * 2 + 1)))"
proof -
  have x: "\<bar>x\<bar> \<le> 1" using assms by simp
  let ?a = "\<lambda>n. 1 / real (n * 2 + 1) * x ^ (n * 2 + 1)"
  have "0 < ?a 0" using assms by simp
  with summable_Leibniz(2) [OF zeroseq_arctan_series [OF x] monoseq_arctan_series [OF x]]
  have "(\<Sum>i. (- 1) ^ i * ?a i) \<in> {\<Sum>i<2 * n. (- 1) ^ i * ?a i .. \<Sum>i<2 * n + 1. (- 1) ^ i * ?a i}"
    by blast
  then show "(\<Sum>i<2 * n. (- 1) ^ i * ?a i) \<le> arctan x"
    and "arctan x \<le> (\<Sum>i<2 * n + 1. (- 1) ^ i * ?a i)"
    by (simp_all add: arctan_series [OF x])
qed

lemma arctan_fifth_bounds:
  "(19739555984988075824 / 100000000000000000000 :: real) \<le> arctan (1 / 5)"
  "arctan (1 / 5) \<le> (19739555984988075838 / 100000000000000000000 :: real)"
proof -
  have "(19739555984988075824 / 100000000000000000000 :: real)
        \<le> (\<Sum>i<2 * 6. (- 1) ^ i * (1 / real (i * 2 + 1) * (1 / 5) ^ (i * 2 + 1)))"
    by (simp add: lessThan_nat_numeral power_divide)
  also have "\<dots> \<le> arctan (1 / 5)"
    by (rule arctan_partial_sums) simp_all
  finally show "(19739555984988075824 / 100000000000000000000 :: real) \<le> arctan (1 / 5)" .
  have "arctan (1 / 5)
        \<le> (\<Sum>i<2 * 6 + 1. (- 1) ^ i * (1 / real (i * 2 + 1) * (1 / 5) ^ (i * 2 + 1)))"
    by (rule arctan_partial_sums) simp_all
  also have "\<dots> \<le> (19739555984988075838 / 100000000000000000000 :: real)"
    by (simp add: lessThan_nat_numeral power_divide)
  finally show "arctan (1 / 5) \<le> (19739555984988075838 / 100000000000000000000 :: real)" .
qed

lemma arctan_239th_bounds:
  "(418407600207472386 / 100000000000000000000 :: real) \<le> arctan (1 / 239)"
  "arctan (1 / 239) \<le> (418407600207472387 / 100000000000000000000 :: real)"
proof -
  have "(418407600207472386 / 100000000000000000000 :: real)
        \<le> (\<Sum>i<2 * 2. (- 1) ^ i * (1 / real (i * 2 + 1) * (1 / 239) ^ (i * 2 + 1)))"
    by (simp add: lessThan_nat_numeral power_divide)
  also have "\<dots> \<le> arctan (1 / 239)"
    by (rule arctan_partial_sums) simp_all
  finally show "(418407600207472386 / 100000000000000000000 :: real) \<le> arctan (1 / 239)" .
  have "arctan (1 / 239)
        \<le> (\<Sum>i<2 * 2 + 1. (- 1) ^ i * (1 / real (i * 2 + 1) * (1 / 239) ^ (i * 2 + 1)))"
    by (rule arctan_partial_sums) simp_all
  also have "\<dots> \<le> (418407600207472387 / 100000000000000000000 :: real)"
    by (simp add: lessThan_nat_numeral power_divide)
  finally show "arctan (1 / 239) \<le> (418407600207472387 / 100000000000000000000 :: real)" .
qed

lemma pi_18_digits:
  "3.14159265358979323 \<le> pi" "pi \<le> 3.14159265358979325"
proof -
  have "pi = 16 * arctan (1 / 5) - 4 * arctan (1 / 239)"
    using machin by simp
  with arctan_fifth_bounds arctan_239th_bounds
  show "3.14159265358979323 \<le> pi" "pi \<le> 3.14159265358979325"
    by simp_all
qed

lemma binary64_I:
  fixes m e :: int
  assumes "x = of_int m * 2 powi e" and "\<bar>m\<bar> < 2 ^ 53" and "- 1074 \<le> e" and "e \<le> 971"
  shows "x \<in> binary64"
  using assms unfolding binary64_def by blast

lemma sin_ge_cubic:
  fixes t :: real
  assumes "0 \<le> t"
  shows "t - t ^ 3 / 6 \<le> sin t"
proof -
  let ?f = "\<lambda>u::real. sin u - u + u ^ 3 / 6"
  have "?f 0 \<le> ?f t"
  proof (rule DERIV_nonneg_imp_nondecreasing [OF assms])
    fix u :: real
    have "(?f has_real_derivative (cos u - 1 + 3 * u\<^sup>2 / 6)) (at u)"
      by (rule derivative_eq_intros refl | simp)+
    moreover have "0 \<le> cos u - 1 + 3 * u\<^sup>2 / 6"
      using cos_ge_parabola [of u] by simp
    ultimately show "\<exists>y. (?f has_real_derivative y) (at u) \<and> 0 \<le> y"
      by blast
  qed
  then show ?thesis by simp
qed

lemma sin_ge_five_sixths:
  fixes t :: real
  assumes "0 \<le> t" and "t \<le> 1"
  shows "5 / 6 * t \<le> sin t"
proof -
  have "t ^ 3 \<le> t"
  proof -
    have "t * (t * t) \<le> t * (1 * 1)"
      using assms by (intro mult_left_mono mult_mono) simp_all
    then show ?thesis by (simp add: power3_eq_cube)
  qed
  with sin_ge_cubic [OF assms(1)] show ?thesis by simp
qed

lemma binary64_grid:
  assumes "x \<in> binary64" and "1 \<le> x"
  shows "\<exists>k::int. x = of_int k / 2 ^ 52"
proof -
  from assms(1) obtain m e :: int
    where x: "x = of_int m * 2 powi e" and m: "\<bar>m\<bar> < 2 ^ 53" and e: "- 1074 \<le> e" "e \<le> 971"
    unfolding binary64_def by blast
  have m': "\<bar>real_of_int m\<bar> < 2 ^ 53"
  proof -
    have "real_of_int \<bar>m\<bar> < real_of_int (2 ^ 53)"
      using m by (simp only: of_int_less_iff)
    then show ?thesis by simp
  qed
  have "- 52 \<le> e"
  proof (rule ccontr)
    assume "\<not> - 52 \<le> e"
    then have "e \<le> - 53" by simp
    then have "(2::real) powi e \<le> 2 powi (- 53)"
      by (intro power_int_increasing) simp_all
    then have "\<bar>real_of_int m\<bar> * 2 powi e \<le> \<bar>real_of_int m\<bar> * 2 powi (- 53)"
      by (intro mult_left_mono) simp_all
    also have "\<dots> < 2 ^ 53 * 2 powi (- 53)"
      using m' by (intro mult_strict_right_mono) simp_all
    also have "\<dots> = (1::real)"
      by (simp add: power_int_minus)
    finally have "\<bar>x\<bar> < 1"
      by (simp add: x abs_mult)
    with assms(2) show False by simp
  qed
  then obtain n :: nat where n: "e + 52 = int n"
    using nonneg_int_cases [of "e + 52"] by auto
  have "e = int n + (- 52)"
    using n by linarith
  then have "(2::real) powi e = 2 powi (int n + (- 52))"
    by (rule arg_cong)
  also have "\<dots> = 2 ^ n * 2 powi (- 52)"
    by (subst power_int_add) (simp_all add: power_int_of_nat)
  also have "\<dots> = 2 ^ n / 2 ^ 52"
    by (simp add: power_int_minus_divide)
  finally have "x = of_int (m * 2 ^ n) / 2 ^ 52"
    by (simp add: x)
  then show ?thesis by blast
qed

lemma cos_binary64_near_half_pi:
  fixes k :: int
  assumes "1 \<le> real_of_int k / 2 ^ 52" and "real_of_int k / 2 ^ 52 \<le> 2"
  shows "4 / 10 ^ 17 \<le> \<bar>cos (real_of_int k / 2 ^ 52)\<bar>"
proof -
  define d where "d = real_of_int k / 2 ^ 52"
  have d: "1 \<le> d" "d \<le> 2"
    using assms by (simp_all add: d_def)
  note p = pi_18_digits
  consider "k \<le> 7074237752028440" | "7074237752028441 \<le> k"
    by linarith
  then have "4 / 10 ^ 17 \<le> \<bar>cos d\<bar>"
  proof cases
    case 1
    then have "real_of_int k \<le> real_of_int 7074237752028440"
      by (simp only: of_int_le_iff)
    then have "d \<le> 7074237752028440 / 2 ^ 52"
      by (simp add: d_def divide_right_mono)
    then have lo: "5 / 10 ^ 17 \<le> pi / 2 - d"
      using p(1) by simp
    have hi: "pi / 2 - d \<le> 1"
      using p(2) d(1) by simp
    have "0 \<le> pi / 2 - d" using lo by simp
    from sin_ge_five_sixths [OF this hi] lo
    have "4 / 10 ^ 17 \<le> sin (pi / 2 - d)" by simp
    moreover have "cos d = sin (pi / 2 - d)"
      using cos_sin_eq [of d] by simp
    ultimately show ?thesis by simp
  next
    case 2
    then have "real_of_int 7074237752028441 \<le> real_of_int k"
      by (simp only: of_int_le_iff)
    then have "7074237752028441 / 2 ^ 52 \<le> d"
      by (simp add: d_def divide_right_mono)
    then have lo: "5 / 10 ^ 17 \<le> d - pi / 2"
      using p(2) by simp
    have hi: "d - pi / 2 \<le> 1"
      using p(1) d(2) by simp
    have "0 \<le> d - pi / 2" using lo by simp
    from sin_ge_five_sixths [OF this hi] lo
    have "4 / 10 ^ 17 \<le> sin (d - pi / 2)" by simp
    moreover have "cos d = - sin (d - pi / 2)"
      using cos_sin_eq [of d] sin_minus [of "d - pi / 2"] by simp
    ultimately show ?thesis by simp
  qed
  then show ?thesis by (simp add: d_def)
qed

lemma radians64_90:
  assumes "radians64 90 y"
  shows "4 / 10 ^ 17 \<le> \<bar>cos y\<bar>"
proof -
  note p = pi_18_digits
  from assms have y: "y \<in> binary64" and e: "\<bar>y - 90 * pi / 180\<bar> \<le> \<bar>90 * pi / 180\<bar> / 2 ^ 50"
    by (simp_all add: radians64_def)
  have "\<bar>90 * pi / 180\<bar> / 2 ^ 50 \<le> 1 / 4"
    using p by simp
  with e have "\<bar>y - pi / 2\<bar> \<le> 1 / 4" by simp
  moreover have "3 \<le> pi" "pi \<le> 7 / 2"
    using p by simp_all
  ultimately have r: "1 \<le> y" "y \<le> 2" by linarith+
  from binary64_grid [OF y r(1)] obtain k :: int where k: "y = real_of_int k / 2 ^ 52"
    by blast
  show ?thesis
    using cos_binary64_near_half_pi [of k] r by (simp add: k)
qed

lemma cos64_bounds:
  assumes "cos64 y c" and "4 / 10 ^ 17 \<le> \<bar>cos y\<bar>"
  shows "2 / 10 ^ 17 \<le> \<bar>c\<bar>" and "\<bar>c\<bar> \<le> 3 / 2"
proof -
  from assms(1) have e: "\<bar>c - cos y\<bar> \<le> \<bar>cos y\<bar> / 2"
    by (simp add: cos64_def)
  have "\<bar>cos y\<bar> \<le> 1" by simp
  with e assms(2) show "2 / 10 ^ 17 \<le> \<bar>c\<bar>" and "\<bar>c\<bar> \<le> 3 / 2"
    by linarith+
qed

lemma divide64_finite:
  assumes "divide64 1.0 c q" and "2 / 10 ^ 17 \<le> \<bar>c\<bar>" and "\<bar>c\<bar> \<le> 3 / 2"
  shows "\<exists>a. q = Fin a \<and> a \<in> binary64 \<and> a \<noteq> 0 \<and> \<bar>a\<bar> < 10 ^ 17"
proof -
  have c0: "c \<noteq> 0" using assms(2) by auto
  have pos: "0 < \<bar>c\<bar>" using c0 by simp
  have up: "\<bar>1 / c\<bar> \<le> 5 * 10 ^ 16"
  proof -
    have "1 / \<bar>c\<bar> \<le> 1 / (2 / 10 ^ 17)"
      using assms(2) by (intro divide_left_mono) simp_all
    then show ?thesis by (simp add: abs_divide)
  qed
  have lo: "2 / 3 \<le> \<bar>1 / c\<bar>"
  proof -
    have "1 / (3 / 2) \<le> 1 / \<bar>c\<bar>"
      using assms(3) pos by (intro divide_left_mono) simp_all
    then show ?thesis by (simp add: abs_divide)
  qed
  have "\<not> 2 ^ 1024 - 2 ^ 970 \<le> \<bar>1 / c\<bar>"
    using up by simp
  with assms(1) c0 obtain r where r: "q = Fin r" "r \<in> binary64"
    and e: "\<bar>r - 1 / c\<bar> \<le> max (\<bar>1 / c\<bar> / 2 ^ 53) (1 / 2 ^ 1075)"
    by (auto simp add: divide64_def)
  have "max (\<bar>1 / c\<bar> / 2 ^ 53) (1 / 2 ^ 1075) \<le> \<bar>1 / c\<bar> / 2"
    using lo by simp
  with e have h: "\<bar>r - 1 / c\<bar> \<le> \<bar>1 / c\<bar> / 2" by linarith
  with lo have "r \<noteq> 0" by auto
  moreover from h up have "\<bar>r\<bar> < 10 ^ 17" by (simp; linarith)
  ultimately show ?thesis using r by blast
qed

lemma radians64_90_witness: "radians64 90 (7074237752028440 / 2 ^ 52)"
proof -
  note p = pi_18_digits
  have "(7074237752028440 / 2 ^ 52 :: real) = of_int 7074237752028440 * 2 powi (- 52)"
    by (simp add: power_int_minus_divide)
  then have m: "(7074237752028440 / 2 ^ 52 :: real) \<in> binary64"
    by (rule binary64_I) simp_all
  have "0 \<le> pi / 2 - 7074237752028440 / 2 ^ 52" "pi / 2 - 7074237752028440 / 2 ^ 52 \<le> 1 / 10 ^ 16"
    using p by simp_all
  moreover have "1 / 10 ^ 16 \<le> pi / 2 / 2 ^ 50"
    using p(1) by simp
  ultimately have "\<bar>7074237752028440 / 2 ^ 52 - pi / 2\<bar> \<le> \<bar>pi / 2\<bar> / 2 ^ 50"
    by (simp add: abs_if)
  with m show ?thesis
    by (simp add: radians64_def)
qed

lemma cos64_witness: "cos64 (7074237752028440 / 2 ^ 52) (4967757600021511 / 2 ^ 106)"
proof -
  note p = pi_18_digits
  define t :: real where "t = pi / 2 - 7074237752028440 / 2 ^ 52"
  define s :: real where "s = sin t"
  have "(4967757600021511 / 2 ^ 106 :: real) = of_int 4967757600021511 * 2 powi (- 106)"
    by (simp add: power_int_minus_divide)
  then have m: "(4967757600021511 / 2 ^ 106 :: real) \<in> binary64"
    by (rule binary64_I) simp_all
  have t: "57 / 10 ^ 18 \<le> t" "t \<le> 68 / 10 ^ 18"
    using p by (simp_all add: t_def)
  then have t01: "0 \<le> t" "t \<le> 1" by simp_all
  have "s \<le> t" unfolding s_def using t01(1) by (rule sin_x_le_x)
  moreover have "5 / 6 * t \<le> s" unfolding s_def using t01 by (rule sin_ge_five_sixths)
  ultimately have s: "47 / 10 ^ 18 \<le> s" "s \<le> 68 / 10 ^ 18"
    using t by simp_all
  have c: "61 / 10 ^ 18 \<le> (4967757600021511 / 2 ^ 106 :: real)"
    "(4967757600021511 / 2 ^ 106 :: real) \<le> 62 / 10 ^ 18"
    by simp_all
  have "cos (7074237752028440 / 2 ^ 52) = s"
    using cos_sin_eq [of "7074237752028440 / 2 ^ 52 :: real"] by (simp add: s_def t_def)
  moreover have "\<bar>4967757600021511 / 2 ^ 106 - s\<bar> \<le> \<bar>s\<bar> / 2"
    using s c by (simp add: abs_if)
  ultimately show ?thesis
    using m by (simp add: cos64_def)
qed

lemma divide64_witness: "divide64 1.0 (4967757600021511 / 2 ^ 106) (Fin 16331239353195370)"
proof -
  have "(16331239353195370 :: real) = of_int 8165619676597685 * 2 powi 1"
    by simp
  then have m: "(16331239353195370 :: real) \<in> binary64"
    by (rule binary64_I) simp_all
  have q: "\<bar>16331239353195370 - 1 / (4967757600021511 / 2 ^ 106 :: real)\<bar>
           \<le> \<bar>1 / (4967757600021511 / 2 ^ 106 :: real)\<bar> / 2 ^ 53"
    by (simp add: abs_if)
  have "\<not> (2 ^ 1024 - 2 ^ 970 :: real) \<le> \<bar>1 / (4967757600021511 / 2 ^ 106)\<bar>"
    by simp
  with m q show ?thesis
    unfolding divide64_def by (auto simp add: max_def)
qed






section \<open>The claims\<close>

text \<open>
  C3.  A model string that, lowercased, is none of the eight names makes the call raise:
  the result is the \<^verbatim>\<open>ValueError\<close> whose arguments are the message text and the lowercased
  model string.  A model string that lowercases to one of the eight names never raises,
  whatever the zenith: the unknown model is the only failure.
\<close>

theorem invalid_model_raises:
  "(lower model \<notin> set model_names \<longrightarrow>
      get_relative_airmass zenith model =
        Inl (ValueError [''%s is not a valid model for relativeairmass'', lower model])) \<and>
   (lower model \<in> set model_names \<longrightarrow>
      (\<exists>am. get_relative_airmass zenith model = Inr am))"
proof (intro conjI impI)
  assume "lower model \<notin> set model_names"
  then show "get_relative_airmass zenith model =
      Inl (ValueError [''%s is not a valid model for relativeairmass'', lower model])"
    by (rule gra_invalid)
next
  assume "lower model \<in> set model_names"
  then obtain f where "select_model (lower model) = Inr f"
    using select_model_valid by blast
  from gra_values [OF this] show "\<exists>am. get_relative_airmass zenith model = Inr am"
    by blast
qed

text \<open>
  The theorem at \<^verbatim>\<open>Not_A_Model\<close> (raises) and at \<^verbatim>\<open>KastenYoung1989\<close> (returns).
\<close>

theorem invalid_model_raises_witness:
  "lower ''Not_A_Model'' \<notin> set model_names \<and>
   get_relative_airmass (Scalar (Fin 30) :: unit numeric) ''Not_A_Model'' =
     Inl (ValueError [''%s is not a valid model for relativeairmass'', ''not_a_model'']) \<and>
   lower ''KastenYoung1989'' \<in> set model_names \<and>
   (\<exists>am. get_relative_airmass (Scalar (Fin 30) :: unit numeric) ''KastenYoung1989'' = Inr am)"
proof -
  have l1: "lower ''Not_A_Model'' = ''not_a_model''"
    and l2: "lower ''KastenYoung1989'' = ''kastenyoung1989''"
    by (simp_all add: lower_def lower_char_def)
  have n1: "lower ''Not_A_Model'' \<notin> set model_names"
    and n2: "lower ''KastenYoung1989'' \<in> set model_names"
    by (simp_all add: l1 l2 model_names_def)
  show ?thesis
    using invalid_model_raises [of "''Not_A_Model''" "Scalar (Fin 30) :: unit numeric"]
      invalid_model_raises [of "''KastenYoung1989''" "Scalar (Fin 30) :: unit numeric"]
      n1 n2 l1
    by simp
qed

text \<open>
  C2.  For each of the eight models the call returns, the result has as many elements
  as the input, and every element whose zenith is greater than 90 is NaN.  A zenith of
  exactly 90 passes the mask unchanged, and its output element is not NaN.
\<close>

theorem zenith_above_90_is_nan:
  assumes "lower model \<in> set model_names"
  shows "\<exists>am. get_relative_airmass zenith model = Inr am \<and>
           length (values_of am) = length (values_of zenith) \<and>
           (\<forall>i < length (values_of zenith).
              np_greater (values_of zenith ! i) (Fin 90) \<longrightarrow> values_of am ! i = NaN) \<and>
           where_gt90 (Fin 90) = Fin 90 \<and>
           (\<forall>i < length (values_of zenith).
              values_of zenith ! i = Fin 90 \<longrightarrow> values_of am ! i \<noteq> NaN)"
proof -
  from assms obtain f where f: "select_model (lower model) = Inr f"
    using select_model_valid by blast
  from gra_values [OF f] obtain am where am: "get_relative_airmass zenith model = Inr am"
    and v: "values_of am = map (element f) (values_of zenith)"
    by blast
  have masked: "values_of am ! i = NaN"
    if "i < length (values_of zenith)" "np_greater (values_of zenith ! i) (Fin 90)" for i
    using that by (simp add: v element_NaN [OF f where_gt90_greater])
  have at90: "element f (Fin 90) \<noteq> NaN"
    using select_model_Inr_names [OF f] f
  proof (cases rule: model_names_cases)
  qed (simp_all only: select_model_simps sum.inject,
       auto simp only: element_def where_gt90_90 radians_90 formulas_90 npfloat.distinct)
  have kept: "values_of am ! i \<noteq> NaN"
    if "i < length (values_of zenith)" "values_of zenith ! i = Fin 90" for i
    using that at90 by (simp add: v)
  show ?thesis
    using am v masked kept where_gt90_90 by simp
qed


text \<open>
  The theorem on the array \<open>[95, 90]\<close> with model \<^verbatim>\<open>simple\<close>.
\<close>

theorem zenith_above_90_is_nan_witness:
  "lower ''simple'' \<in> set model_names \<and>
   (\<exists>am. get_relative_airmass (NDArray [Fin 95, Fin 90] :: unit numeric) ''simple'' = Inr am \<and>
         values_of am ! 0 = NaN \<and> values_of am ! 1 \<noteq> NaN)"
proof -
  have n: "lower ''simple'' \<in> set model_names"
    by (simp add: lower_model_names model_names_def)
  from zenith_above_90_is_nan [OF n, of "NDArray [Fin 95, Fin 90] :: unit numeric"]
  obtain am where am: "get_relative_airmass (NDArray [Fin 95, Fin 90] :: unit numeric) ''simple'' = Inr am"
    and hi: "\<forall>i < 2. np_greater ([Fin 95, Fin 90] ! i) (Fin 90) \<longrightarrow> values_of am ! i = NaN"
    and eq: "\<forall>i < 2. [Fin 95, Fin 90] ! i = Fin 90 \<longrightarrow> values_of am ! i \<noteq> NaN"
    by auto
  from hi have "values_of am ! 0 = NaN" by simp
  moreover from eq have "values_of am ! 1 \<noteq> NaN" by simp
  ultimately show ?thesis using n am by blast
qed

text \<open>
  C4.  For each of the eight models, every element that is NaN after the mask (a NaN
  zenith, or one above 90) gives NaN in the output: the call returns, it does not raise,
  and the element is not zero.  A NaN zenith stays NaN through the mask.
\<close>

theorem nan_propagates:
  assumes "lower model \<in> set model_names"
  shows "\<exists>am. get_relative_airmass zenith model = Inr am \<and>
           length (values_of am) = length (values_of zenith) \<and>
           (\<forall>i < length (values_of zenith).
              where_gt90 (values_of zenith ! i) = NaN \<longrightarrow> values_of am ! i = NaN) \<and>
           where_gt90 NaN = NaN"
proof -
  from assms obtain f where f: "select_model (lower model) = Inr f"
    using select_model_valid by blast
  from gra_values [OF f] obtain am where am: "get_relative_airmass zenith model = Inr am"
    and v: "values_of am = map (element f) (values_of zenith)"
    by blast
  have "values_of am ! i = NaN"
    if "i < length (values_of zenith)" "where_gt90 (values_of zenith ! i) = NaN" for i
    using that by (simp add: v element_NaN [OF f])
  then show ?thesis
    using am v by (simp add: where_gt90_def)
qed

text \<open>
  The theorem on a Series holding a NaN and a zenith of 91, model \<^verbatim>\<open>gueymard2003\<close>.
\<close>

theorem nan_propagates_witness:
  "lower ''gueymard2003'' \<in> set model_names \<and>
   (\<exists>am. get_relative_airmass (Series [(''t0'', NaN), (''t1'', Fin 91)]) ''gueymard2003'' = Inr am \<and>
         values_of am ! 0 = NaN \<and> values_of am ! 1 = NaN)"
proof -
  have n: "lower ''gueymard2003'' \<in> set model_names"
    by (simp add: lower_model_names model_names_def)
  from nan_propagates [OF n, of "Series [(''t0'', NaN), (''t1'', Fin 91)]"]
  obtain am where am: "get_relative_airmass (Series [(''t0'', NaN), (''t1'', Fin 91)]) ''gueymard2003'' = Inr am"
    and hi: "\<forall>i < 2. where_gt90 ([NaN, Fin 91] ! i) = NaN \<longrightarrow> values_of am ! i = NaN"
    by auto
  from hi have "values_of am ! 0 = NaN" by (simp add: where_gt90_def)
  moreover from hi have "values_of am ! 1 = NaN" by (simp add: where_gt90_def)
  ultimately show ?thesis using n am by blast
qed

text \<open>
  C8.  For each of the eight models there is one function of an element such that a
  scalar gives a scalar, an array gives the array of the same length and order with the
  function applied to each element, and a Series gives the Series with the same labels
  in the same order, each value being the function applied to the input value.
\<close>

theorem output_mirrors_input:
  assumes "lower model \<in> set model_names"
  shows "\<exists>g. (\<forall>x. get_relative_airmass (Scalar x) model = Inr (Scalar (g x))) \<and>
             (\<forall>xs. get_relative_airmass (NDArray xs) model = Inr (NDArray (map g xs))) \<and>
             (\<forall>s. get_relative_airmass (Series s) model =
                    Inr (Series (map (\<lambda>(l, x). (l, g x)) s)))"
proof -
  from assms obtain f where f: "select_model (lower model) = Inr f"
    using select_model_valid by blast
  show ?thesis
    using gra_Scalar [OF f] gra_NDArray [OF f] gra_Series [OF f] by blast
qed

text \<open>
  The theorem on a Series with labels \<^verbatim>\<open>t0, t1, t2\<close>, model \<^verbatim>\<open>Young1994\<close>.
\<close>

theorem output_mirrors_input_witness:
  "lower ''Young1994'' \<in> set model_names \<and>
   (\<exists>a b c. get_relative_airmass (Series [(''t0'', Fin 10), (''t1'', Fin 95), (''t2'', Fin 20)])
               ''Young1994'' =
             Inr (Series [(''t0'', a), (''t1'', b), (''t2'', c)]))"
proof -
  have n: "lower ''Young1994'' \<in> set model_names"
    by (simp add: lower_def lower_char_def model_names_def)
  from output_mirrors_input [OF n]
  obtain g where "\<forall>s :: (string \<times> npfloat) list. get_relative_airmass (Series s) ''Young1994'' =
                    Inr (Series (map (\<lambda>(l, x). (l, g x)) s))"
    by blast
  then have "get_relative_airmass (Series [(''t0'', Fin 10), (''t1'', Fin 95), (''t2'', Fin 20)])
               ''Young1994'' =
             Inr (Series [(''t0'', g (Fin 10)), (''t1'', g (Fin 95)), (''t2'', g (Fin 20))])"
    by simp
  with n show ?thesis by blast
qed

text \<open>
  C1.  For a zenith that is not NaN and not greater than 90, and each of the eight
  model names, the call returns the value the specification's table gives for that
  model at that zenith.  For \<^verbatim>\<open>kastenyoung1989\<close> and a finite zenith \<open>r\<close> it is one divided
  by \<open>cos (radians r) + 0.50572 * (6.07995 + (90 - r)) ^ (- 1.6364)\<close>.
\<close>

theorem formulas_match_spec_table:
  assumes "\<not> np_greater z (Fin 90)" and "z \<noteq> NaN" and "model \<in> set model_names"
  shows "(\<exists>v. spec_formula model z = Some v \<and>
              get_relative_airmass (Scalar z) model = Inr (Scalar v)) \<and>
         (\<forall>r. z = Fin r \<longrightarrow>
              get_relative_airmass (Scalar z) ''kastenyoung1989'' =
                Inr (Scalar (np_divide (Fin 1) (Fin (kastenyoung1989_denominator r)))))"
proof (intro conjI allI impI)
  have keep: "where_gt90 z = z"
    using assms(1) by (rule where_gt90_keep)
  have "spec_formula model z = Some (element f z) \<and>
        get_relative_airmass (Scalar z) model = Inr (Scalar (element f z))"
    if "select_model model = Inr f" and "lower model = model" for f
    using that assms(3)
  proof (cases rule: model_names_cases [OF assms(3)])
  qed (simp_all add: gra_Scalar [where f = f] select_model_simps spec_formula_simps
        element_def keep)
  moreover obtain f where "select_model model = Inr f"
    using select_model_valid [OF assms(3)] by blast
  moreover have "lower model = model"
    by (rule model_names_cases [OF assms(3)]) (simp_all only: lower_model_names)
  ultimately show "\<exists>v. spec_formula model z = Some v \<and>
      get_relative_airmass (Scalar z) model = Inr (Scalar v)"
    by blast
next
  fix r
  assume z: "z = Fin r"
  with assms(1) have r: "r \<le> 90" by simp
  have "where_gt90 (Fin r) = Fin r"
    using assms(1) z by (simp add: where_gt90_keep)
  then show "get_relative_airmass (Scalar z) ''kastenyoung1989'' =
      Inr (Scalar (np_divide (Fin 1) (Fin (kastenyoung1989_denominator r))))"
    using kastenyoung1989_le_90 [OF r]
    by (simp add: z gra_Scalar [where f = am_kastenyoung1989] lower_model_names
        select_model_simps element_def)
qed

text \<open>
  The theorem at zenith 60 and model \<^verbatim>\<open>kastenyoung1989\<close>.
\<close>

theorem formulas_match_spec_table_witness:
  "\<not> np_greater (Fin 60) (Fin 90) \<and> Fin 60 \<noteq> NaN \<and> ''kastenyoung1989'' \<in> set model_names \<and>
   spec_formula ''kastenyoung1989'' (Fin 60) =
     Some (np_divide (Fin 1) (Fin (kastenyoung1989_denominator 60))) \<and>
   get_relative_airmass (Scalar (Fin 60) :: unit numeric) ''kastenyoung1989'' =
     Inr (Scalar (np_divide (Fin 1) (Fin (kastenyoung1989_denominator 60))))"
proof -
  have h: "\<not> np_greater (Fin 60) (Fin 90)" "Fin 60 \<noteq> NaN"
    "''kastenyoung1989'' \<in> set model_names"
    by (simp_all add: model_names_def)
  from formulas_match_spec_table [OF h, where ?'a = unit]
  obtain v where v: "spec_formula ''kastenyoung1989'' (Fin 60) = Some v"
      "get_relative_airmass (Scalar (Fin 60) :: unit numeric) ''kastenyoung1989'' = Inr (Scalar v)"
    and k: "get_relative_airmass (Scalar (Fin 60) :: unit numeric) ''kastenyoung1989'' =
      Inr (Scalar (np_divide (Fin 1) (Fin (kastenyoung1989_denominator 60))))"
    by blast
  from v k have "v = np_divide (Fin 1) (Fin (kastenyoung1989_denominator 60))"
    by simp
  with v k h show ?thesis by simp
qed

text \<open>
  C9.  For a zenith between 0 and 90 the base of the power of \<^verbatim>\<open>kastenyoung1989\<close> is at
  least 6.07995, the cosine is not negative, the correction term is positive, so the
  denominator is positive: the division is an ordinary one and the airmass returned is
  finite and positive, at 90 too.
\<close>

theorem kastenyoung1989_finite_positive:
  assumes "0 \<le> z" and "z \<le> 90"
  shows "6.07995 \<le> 6.07995 + (90 - z) \<and>
         0 \<le> cos (z * pi / 180) \<and>
         0 < 0.50572 * (6.07995 + (90 - z)) powr (- 1.6364) \<and>
         0 < kastenyoung1989_denominator z \<and>
         get_relative_airmass (Scalar (Fin z)) ''kastenyoung1989'' =
           Inr (Scalar (Fin (1 / kastenyoung1989_denominator z))) \<and>
         0 < 1 / kastenyoung1989_denominator z"
proof -
  have pos: "0 < kastenyoung1989_denominator z"
    using assms by (rule kastenyoung1989_denominator_pos)
  have "where_gt90 (Fin z) = Fin z"
    using assms(2) by (simp add: where_gt90_def)
  then have "get_relative_airmass (Scalar (Fin z)) ''kastenyoung1989'' =
      Inr (Scalar (Fin (1 / kastenyoung1989_denominator z)))"
    using pos kastenyoung1989_le_90 [OF assms(2)]
    by (simp add: gra_Scalar [where f = am_kastenyoung1989] lower_model_names
        select_model_simps element_def)
  moreover have "0 < 0.50572 * (6.07995 + (90 - z)) powr (- 1.6364)"
    using assms(2) by simp
  ultimately show ?thesis
    using pos assms cos_deg_nonneg [OF assms] by simp
qed

text \<open>
  The theorem at zenith 90, where the cosine is zero and the correction term is all of
  the denominator.
\<close>

theorem kastenyoung1989_finite_positive_witness:
  "(0::real) \<le> 90 \<and> (90::real) \<le> 90 \<and>
   get_relative_airmass (Scalar (Fin 90) :: unit numeric) ''kastenyoung1989'' =
     Inr (Scalar (Fin (1 / (0.50572 * 6.07995 powr (- 1.6364))))) \<and>
   (0::real) < 1 / (0.50572 * 6.07995 powr (- 1.6364))"
  using kastenyoung1989_finite_positive [of 90, where ?'a = unit]
  by (simp add: kastenyoung1989_denominator_def)

text \<open>
  C10.  A negative zenith (finite or \<open>-inf\<close>) is not masked, and \<^verbatim>\<open>gueymard2003\<close> returns
  NaN for it.  Each of the other seven models returns a value that is not NaN for every
  finite negative zenith.
\<close>

theorem gueymard2003_negative_zenith_nan:
  assumes "np_greater (Fin 0) z"
  shows "where_gt90 z = z \<and>
         get_relative_airmass (Scalar z) ''gueymard2003'' = Inr (Scalar NaN) \<and>
         (\<forall>r m. z = Fin r \<longrightarrow> m \<in> set model_names \<longrightarrow> m \<noteq> ''gueymard2003'' \<longrightarrow>
            (\<exists>a. get_relative_airmass (Scalar z) m = Inr (Scalar a) \<and> a \<noteq> NaN))"
proof (intro conjI allI impI)
  show keep: "where_gt90 z = z"
    using assms by (cases z) (simp_all add: where_gt90_def)
  show "get_relative_airmass (Scalar z) ''gueymard2003'' = Inr (Scalar NaN)"
    using gueymard2003_negative [OF assms]
    by (simp add: gra_Scalar [where f = am_gueymard2003] lower_model_names
        select_model_simps element_def keep)
  fix r m
  assume z: "z = Fin r" and m: "m \<in> set model_names" and other: "m \<noteq> ''gueymard2003''"
  from assms z have r: "r < 0" by simp
  have k: "where_gt90 (Fin r) = Fin r"
    using keep z by simp
  from m other show "\<exists>a. get_relative_airmass (Scalar z) m = Inr (Scalar a) \<and> a \<noteq> NaN"
  proof (cases rule: model_names_cases)
  qed (simp_all add: z gra_Scalar [where f = am_kastenyoung1989]
        gra_Scalar [where f = am_kasten1966] gra_Scalar [where f = am_simple]
        gra_Scalar [where f = am_pickering2002] gra_Scalar [where f = am_youngirvine1967]
        gra_Scalar [where f = am_young1994] gra_Scalar [where f = am_gueymard1993]
        lower_model_names select_model_simps element_def k others_negative [OF r]
        pickering2002_negative [OF r] youngirvine1967_negative young1994_negative
        del: np_radians.simps)
qed

text \<open>
  The theorem at zenith \<open>-10\<close>, with \<^verbatim>\<open>simple\<close> as the other model.
\<close>

theorem gueymard2003_negative_zenith_nan_witness:
  "np_greater (Fin 0) (Fin (- 10)) \<and>
   get_relative_airmass (Scalar (Fin (- 10)) :: unit numeric) ''gueymard2003'' = Inr (Scalar NaN) \<and>
   ''simple'' \<in> set model_names \<and> ''simple'' \<noteq> ''gueymard2003'' \<and>
   (\<exists>a. get_relative_airmass (Scalar (Fin (- 10)) :: unit numeric) ''simple'' = Inr (Scalar a) \<and>
        a \<noteq> NaN)"
proof -
  have h: "np_greater (Fin 0) (Fin (- 10))" by simp
  have m: "''simple'' \<in> set model_names" "''simple'' \<noteq> ''gueymard2003''"
    by (simp_all add: model_names_def)
  from gueymard2003_negative_zenith_nan [OF h, where ?'a = unit] h m
  show ?thesis by blast
qed

text \<open>
  C5 as stated fails.  At zenith 0 the call returns one over the denominator at 0, and
  that value is not within \<open>10\<^sup>-\<^sup>6\<close> of 1.
\<close>

theorem kastenyoung1989_zenith_0_counterexample:
  "get_relative_airmass (Scalar (Fin 0) :: unit numeric) ''kastenyoung1989'' =
     Inr (Scalar (Fin (1 / kastenyoung1989_denominator 0))) \<and>
   \<not> \<bar>1 / kastenyoung1989_denominator 0 - 1\<bar> \<le> 1 / 10 ^ 6"
proof -
  have "get_relative_airmass (Scalar (Fin 0) :: unit numeric) ''kastenyoung1989'' =
     Inr (Scalar (Fin (1 / kastenyoung1989_denominator 0)))"
    by (rule gra_kastenyoung1989_valid) simp_all
  moreover have "\<not> \<bar>1 / kastenyoung1989_denominator 0 - 1\<bar> \<le> 1 / 10 ^ 6"
    using airmass_0_bounds(1) by simp
  ultimately show ?thesis by blast
qed

text \<open>
  C5, amended.  At zenith 0 the model \<^verbatim>\<open>kastenyoung1989\<close> returns
  \<open>1 / (1 + 0.50572 * 96.07995 ^ (- 1.6364))\<close>, about 0.99971: its distance from 1 lies
  between 0.00028 and 0.00029.
\<close>

theorem kastenyoung1989_zenith_0:
  "get_relative_airmass (Scalar (Fin 0)) ''kastenyoung1989'' =
     Inr (Scalar (Fin (1 / kastenyoung1989_denominator 0))) \<and>
   28 / 100000 \<le> \<bar>1 / kastenyoung1989_denominator 0 - 1\<bar> \<and>
   \<bar>1 / kastenyoung1989_denominator 0 - 1\<bar> \<le> 29 / 100000"
proof -
  have "get_relative_airmass (Scalar (Fin 0)) ''kastenyoung1989'' =
     Inr (Scalar (Fin (1 / kastenyoung1989_denominator 0)))"
    by (rule gra_kastenyoung1989_valid) simp_all
  moreover have "\<bar>1 / kastenyoung1989_denominator 0 - 1\<bar> = 1 - 1 / kastenyoung1989_denominator 0"
    using airmass_0_bounds(1) by simp
  ultimately show ?thesis
    using airmass_0_bounds by simp
qed


text \<open>
  C6 fails on the code.  For model \<^verbatim>\<open>simple\<close> and a zenith of 90, whatever binary64
  numbers \<^verbatim>\<open>np.radians\<close> and \<^verbatim>\<open>np.cos\<close> return within the accuracy above, the airmass
  returned is a finite, nonzero binary64 number of magnitude below \<open>10\<^sup>1\<^sup>7\<close>: neither an
  infinity nor NaN.  Every binary64 number between 1 and 2 is a multiple of \<open>2 ^ - 52\<close>,
  the nearest ones to \<open>pi / 2\<close> are more than \<open>5 / 10\<^sup>1\<^sup>7\<close> away from it, and so the
  cosine is at least \<open>4 / 10\<^sup>1\<^sup>7\<close> in magnitude.
\<close>

theorem simple_at_90_is_finite:
  assumes "simple64 90 am"
  shows "\<exists>a. am = Fin a \<and> a \<in> binary64 \<and> a \<noteq> 0 \<and> \<bar>a\<bar> < 10 ^ 17"
proof -
  from assms obtain zenith_rad c
    where r: "radians64 90 zenith_rad" and c: "cos64 zenith_rad c" and q: "divide64 1.0 c am"
    by (auto simp add: simple64_def)
  from cos64_bounds [OF c radians64_90 [OF r]] divide64_finite [OF q]
  show ?thesis by blast
qed

text \<open>
  The theorem at the values NumPy computes: \<^verbatim>\<open>np.radians(90)\<close> is
  \<open>7074237752028440 / 2 ^ 52\<close> (\<^verbatim>\<open>0x1.921fb54442d18p+0\<close>), its cosine is
  \<open>4967757600021511 / 2 ^ 106\<close> (about \<open>6.123 / 10\<^sup>1\<^sup>7\<close>), and the airmass is
  \<open>16331239353195370\<close> (\<^verbatim>\<open>1.633123935319537e+16\<close>).
\<close>

theorem simple_at_90_is_finite_witness:
  "simple64 90 (Fin 16331239353195370) \<and>
   (\<exists>a. Fin 16331239353195370 = Fin a \<and> a \<in> binary64 \<and> a \<noteq> 0 \<and> \<bar>a\<bar> < 10 ^ 17)"
proof -
  have s: "simple64 90 (Fin 16331239353195370)"
    unfolding simple64_def
    using radians64_90_witness cos64_witness divide64_witness by auto
  from simple_at_90_is_finite [OF s] s show ?thesis by blast
qed



end
